theory Spec2Isabelle
  imports Complex_Main "HOL-Library.Sublist"
begin

section \<open>Python values used by the API\<close>

text \<open>
  A Python \<open>str\<close> is a sequence of Unicode code points, so it is modelled as a list of
  natural numbers, one per code point; \<open>len\<close> is \<open>length\<close>. \<open>lit\<close> turns an ASCII literal
  into such a list; characters beyond ASCII that occur in the messages of \<open>api/app.py\<close>
  are written as their code points. \<open>bytes\<close> are lists of numbers below 256.
\<close>

type_synonym pystr = "nat list"

type_synonym bytes = "nat list"

definition lit :: "string \<Rightarrow> pystr" where
  "lit s = map of_char s"

text \<open>
  \<open>str.isspace\<close> of one code point: the white-space table of CPython
  (\<open>_PyUnicode_IsWhitespace\<close>).
\<close>

definition py_isspace :: "nat \<Rightarrow> bool" where
  "py_isspace c \<longleftrightarrow>
     (9 \<le> c \<and> c \<le> 13) \<or> (28 \<le> c \<and> c \<le> 32) \<or> c = 133 \<or> c = 160 \<or> c = 5760 \<or>
     (8192 \<le> c \<and> c \<le> 8202) \<or> c = 8232 \<or> c = 8233 \<or> c = 8239 \<or> c = 8287 \<or> c = 12288"

text \<open>\<open>s.strip()\<close>: white space removed at both ends.\<close>

definition strip :: "pystr \<Rightarrow> pystr" where
  "strip s = rev (dropWhile py_isspace (rev (dropWhile py_isspace s)))"

text \<open>
  \<open>s.replace(old, new)\<close>: the occurrences of \<open>old\<close> are replaced from left to right
  without overlap; an empty \<open>old\<close> matches before every character and at the end.
\<close>

function str_replace :: "pystr \<Rightarrow> pystr \<Rightarrow> pystr \<Rightarrow> pystr" where
  "str_replace old new s =
     (if old = [] then new @ concat (map (\<lambda>c. c # new) s)
      else if s = [] then []
      else if prefix old s then new @ str_replace old new (drop (length old) s)
      else hd s # str_replace old new (tl s))"
  by pat_completeness auto
termination
  by (relation "measure (\<lambda>(old, new, s). length s)") auto

declare str_replace.simps [simp del]

text \<open>
  \<open>s.upper()\<close> and \<open>s.lower()\<close> are modelled on the ASCII letters; a code point outside
  \<open>a-z\<close>/\<open>A-Z\<close> is left as it is (the Unicode case tables are not part of the model, so
  the model agrees with Python on ASCII text).
\<close>

definition str_upper :: "pystr \<Rightarrow> pystr" where
  "str_upper s = map (\<lambda>c. if 97 \<le> c \<and> c \<le> 122 then c - 32 else c) s"

definition str_lower :: "pystr \<Rightarrow> pystr" where
  "str_lower s = map (\<lambda>c. if 65 \<le> c \<and> c \<le> 90 then c + 32 else c) s"

text \<open>\<open>sub in s\<close> on strings: \<open>sub\<close> occurs in \<open>s\<close> as a contiguous piece.\<close>

fun str_in :: "pystr \<Rightarrow> pystr \<Rightarrow> bool" where
  "str_in sub [] = (sub = [])"
| "str_in sub (c # s) = (prefix sub (c # s) \<or> str_in sub s)"

text \<open>\<open>s.endswith((e1, ..., en))\<close> with a tuple of suffixes.\<close>

definition endswith :: "pystr \<Rightarrow> pystr list \<Rightarrow> bool" where
  "endswith s sufs = list_ex (\<lambda>e. suffix e s) sufs"

text \<open>\<open>sep.join(xs)\<close> and \<open>s.split(sep)\<close> for a one-character separator.\<close>

fun str_join :: "pystr \<Rightarrow> pystr list \<Rightarrow> pystr" where
  "str_join sep [] = []"
| "str_join sep [x] = x"
| "str_join sep (x # y # ys) = x @ sep @ str_join sep (y # ys)"

fun split_on :: "nat \<Rightarrow> pystr \<Rightarrow> pystr list" where
  "split_on sep [] = [[]]"
| "split_on sep (c # s) =
     (if c = sep then [] # split_on sep s
      else (case split_on sep s of [] \<Rightarrow> [[c]] | p # ps \<Rightarrow> (c # p) # ps))"

text \<open>The truth value of an optional string: \<open>None\<close> and \<open>""\<close> are false.\<close>

fun truthy :: "pystr option \<Rightarrow> bool" where
  "truthy None = False"
| "truthy (Some s) = (s \<noteq> [])"

text \<open>\<open>base64.b64encode(data).decode('utf-8')\<close>, the standard alphabet with padding.\<close>

definition b64_alphabet :: pystr where
  "b64_alphabet = lit ''ABCDEFGHIJKLMNOPQRSTUVWXYZabcdefghijklmnopqrstuvwxyz0123456789+/''"

definition b64_char :: "nat \<Rightarrow> nat" where
  "b64_char i = b64_alphabet ! (i mod 64)"

fun b64encode :: "bytes \<Rightarrow> pystr" where
  "b64encode [] = []"
| "b64encode [a] = [b64_char (a div 4), b64_char ((a mod 4) * 16), 61, 61]"
| "b64encode [a, b] =
     [b64_char (a div 4), b64_char ((a mod 4) * 16 + b div 16), b64_char ((b mod 16) * 4), 61]"
| "b64encode (a # b # c # bs) =
     [b64_char (a div 4), b64_char ((a mod 4) * 16 + b div 16),
      b64_char ((b mod 16) * 4 + c div 64), b64_char (c mod 64)] @ b64encode bs"

section \<open>Paths and the filesystem\<close>

text \<open>
  \<open>os.path.join(a, b)\<close> and \<open>os.path.basename(p)\<close> of \<open>posixpath\<close>; 47 is the slash.
\<close>

definition os_path_join :: "pystr \<Rightarrow> pystr \<Rightarrow> pystr" where
  "os_path_join a b =
     (if prefix [47] b then b
      else if a = [] \<or> suffix [47] a then a @ b
      else a @ [47] @ b)"

definition basename :: "pystr \<Rightarrow> pystr" where
  "basename p = rev (takeWhile (\<lambda>c. c \<noteq> 47) (rev p))"


definition path_tail :: "pystr \<Rightarrow> pystr list" where
  "path_tail p = filter (\<lambda>x. x \<noteq> [] \<and> x \<noteq> [46]) (split_on 47 p)"



text \<open>
  The filesystem as far as the API touches it: the files by path with their contents,
  the paths whose removal the operating system refuses, and the paths whose reading
  fails (with the text of the exception). A path is looked up as it is spelled.
\<close>

record filesystem =
  files :: "pystr \<rightharpoonup> bytes"
  undeletable :: "pystr set"
  unreadable :: "pystr \<rightharpoonup> pystr"

text \<open>\<open>os.path.exists(p)\<close>; the empty path never exists.\<close>

definition os_path_exists :: "filesystem \<Rightarrow> pystr \<Rightarrow> bool" where
  "os_path_exists fs p \<longleftrightarrow> p \<noteq> [] \<and> files fs p \<noteq> None"

definition no_such_file :: "pystr \<Rightarrow> pystr" where
  "no_such_file p = lit ''[Errno 2] No such file or directory: '' @ [39] @ p @ [39]"

text \<open>\<open>os.path.getsize(p)\<close>; \<open>Inl\<close> carries \<open>str(e)\<close> of the exception raised.\<close>

definition os_path_getsize :: "filesystem \<Rightarrow> pystr \<Rightarrow> pystr + nat" where
  "os_path_getsize fs p =
     (if \<not> os_path_exists fs p then Inl (no_such_file p)
      else (case files fs p of None \<Rightarrow> Inl (no_such_file p) | Some b \<Rightarrow> Inr (length b)))"

text \<open>\<open>with open(p, "rb") as f: f.read()\<close>.\<close>

definition read_bytes :: "filesystem \<Rightarrow> pystr \<Rightarrow> pystr + bytes" where
  "read_bytes fs p =
     (if \<not> os_path_exists fs p then Inl (no_such_file p)
      else
        (case unreadable fs p of
           Some e \<Rightarrow> Inl e
         | None \<Rightarrow> (case files fs p of None \<Rightarrow> Inl (no_such_file p) | Some b \<Rightarrow> Inr b)))"

text \<open>\<open>os.remove(p)\<close>; \<open>None\<close> when it raises, and then nothing has changed.\<close>

definition os_remove :: "filesystem \<Rightarrow> pystr \<Rightarrow> filesystem option" where
  "os_remove fs p =
     (if \<not> os_path_exists fs p \<or> p \<in> undeletable fs then None
      else Some (fs\<lparr>files := (files fs)(p := None)\<rparr>))"

section \<open>Text sanitizer\<close>

text \<open>
  \<open>clean_text\<close> (\<open>api/app.py\<close>, lines 77-86). The regular expression
  \<open>[\x00-\x08\x0B\x0C\x0E-\x1F\x7F]\<close> is the character class \<open>control_char\<close>.
\<close>

definition control_char :: "nat \<Rightarrow> bool" where
  "control_char c \<longleftrightarrow> c \<le> 8 \<or> c = 11 \<or> c = 12 \<or> (14 \<le> c \<and> c \<le> 31) \<or> c = 127"

definition clean_text :: "pystr \<Rightarrow> pystr" where
  "clean_text text =
     (let cleaned = filter (\<lambda>c. \<not> control_char c) text;
          cleaned = str_replace [13] [10] (str_replace [13, 10] [10] cleaned)
      in strip cleaned)"

text \<open>
  The specification's wording of the line-ending rule, for comparison with the two
  \<open>replace\<close> calls of the source: every CR LF pair and every remaining CR becomes one LF.
\<close>

fun normalize_newlines :: "pystr \<Rightarrow> pystr" where
  "normalize_newlines [] = []"
| "normalize_newlines [c] = [if c = 13 then 10 else c]"
| "normalize_newlines (c # d # s) =
     (if c = 13 \<and> d = 10 then 10 # normalize_newlines s
      else if c = 13 then 10 # normalize_newlines (d # s)
      else c # normalize_newlines (d # s))"

section \<open>Request and response models\<close>

text \<open>
  The pydantic models of \<open>api/app.py\<close>. Field names are those of the source; where two
  models share a field name the fields of \<open>SimpleTTSRequest\<close> carry the prefix \<open>s_\<close>,
  those of \<open>TTSInferenceResponse\<close> the prefix \<open>r_\<close>, those of \<open>VoiceInfo\<close> and
  \<open>VoicesListResponse\<close> the prefixes \<open>vi_\<close> and \<open>vl_\<close>; the field \<open>text\<close> of
  \<open>TTSInferenceRequest\<close> is \<open>req_text\<close>, since \<open>text\<close> is a keyword here. Python floats that are only
  passed on are reals.
\<close>

record SimpleTTSRequest =
  s_text :: pystr
  s_tts_voice :: pystr
  s_model_path :: pystr
  s_index_path :: "pystr option"
  s_tts_rate :: int
  s_return_base64 :: bool
  s_output_format :: pystr

record TTSInferenceRequest =
  req_text :: pystr
  tts_voice :: pystr
  model_path :: pystr
  index_path :: "pystr option"
  tts_rate :: int
  pitch :: int
  index_rate :: real
  volume_envelope :: real
  protect :: real
  f0_method :: pystr
  split_audio :: bool
  f0_autotune :: bool
  f0_autotune_strength :: real
  proposed_pitch :: bool
  proposed_pitch_threshold :: real
  clean_audio :: bool
  clean_strength :: real
  export_format :: pystr
  embedder_model :: pystr
  embedder_model_custom :: "pystr option"
  sid :: int
  return_base64 :: bool
  output_filename :: "pystr option"

record TTSInferenceResponse =
  r_success :: bool
  r_message :: pystr
  r_text :: pystr
  r_tts_voice :: pystr
  r_model_path :: pystr
  r_index_path :: "pystr option"
  r_output_file :: "pystr option"
  r_output_path :: "pystr option"
  r_base64 :: "pystr option"
  r_format :: "pystr option"
  r_size_kb :: real
  r_duration_seconds :: "real option"

record VoiceInfo =
  vi_short_name :: pystr
  vi_name :: pystr
  vi_locale :: pystr
  vi_gender :: pystr
  vi_language :: pystr

record VoicesListResponse =
  vl_success :: bool
  vl_voices :: "VoiceInfo list"
  vl_total :: nat
  vl_language_filter :: "pystr option"


definition TTSInferenceRequest_valid :: "TTSInferenceRequest \<Rightarrow> bool" where
  "TTSInferenceRequest_valid r \<longleftrightarrow>
     1 \<le> length (req_text r) \<and> length (req_text r) \<le> 5000 \<and>
     - 100 \<le> tts_rate r \<and> tts_rate r \<le> 100 \<and>
     - 24 \<le> pitch r \<and> pitch r \<le> 24 \<and>
     0 \<le> index_rate r \<and> index_rate r \<le> 1 \<and>
     0 \<le> volume_envelope r \<and> volume_envelope r \<le> 1 \<and>
     0 \<le> protect r \<and> protect r \<le> 0.5 \<and>
     0 \<le> f0_autotune_strength r \<and> f0_autotune_strength r \<le> 1 \<and>
     50 \<le> proposed_pitch_threshold r \<and> proposed_pitch_threshold r \<le> 1200 \<and>
     0 \<le> clean_strength r \<and> clean_strength r \<le> 1 \<and>
     0 \<le> sid r"

text \<open>
  What a handler raises: an \<open>HTTPException\<close> with its status code and detail, or the
  \<open>ValidationError\<close> of pydantic when a model is built from values outside its
  constraints.
\<close>

datatype error = HTTPException (status_code: nat) (detail: pystr) | ValidationError

section \<open>Collaborators\<close>

text \<open>
  A voice of the catalogue is a dictionary from field names to strings;
  \<open>dict_get v k d\<close> is \<open>v.get(k, d)\<close>.
\<close>

type_synonym voice = "pystr \<rightharpoonup> pystr"

definition dict_get :: "voice \<Rightarrow> pystr \<Rightarrow> pystr \<Rightarrow> pystr" where
  "dict_get v k d = (case v k of None \<Rightarrow> d | Some x \<Rightarrow> x)"

text \<open>The keyword arguments of the call of \<open>run_tts_script\<close> (lines 584-609).\<close>

record tts_args =
  a_tts_file :: pystr
  a_tts_text :: pystr
  a_tts_voice :: pystr
  a_tts_rate :: int
  a_pitch :: int
  a_index_rate :: real
  a_volume_envelope :: real
  a_protect :: real
  a_f0_method :: pystr
  a_output_tts_path :: pystr
  a_output_rvc_path :: pystr
  a_pth_path :: pystr
  a_index_path :: pystr
  a_split_audio :: bool
  a_f0_autotune :: bool
  a_f0_autotune_strength :: real
  a_proposed_pitch :: bool
  a_proposed_pitch_threshold :: real
  a_clean_audio :: bool
  a_clean_strength :: real
  a_export_format :: pystr
  a_embedder_model :: pystr
  a_embedder_model_custom :: "pystr option"
  a_sid :: int

text \<open>
  What the module takes from outside, as parameters: the output directory
  (\<open>str(OUTPUT_DIR)\<close>), the formatted time of the request
  (\<open>datetime.now().strftime("%Y%m%d_%H%M%S")\<close>), the cached voice catalogue
  (\<open>load_tts_voices()\<close>), \<open>match_index\<close>, the construction of \<open>Config()\<close>,
  \<open>run_tts_script\<close> and \<open>librosa.get_duration\<close>. A collaborator that can raise returns
  \<open>Inl\<close> with \<open>str(e)\<close>. \<open>run_tts_script\<close> writes files, so it also returns the
  filesystem it leaves behind; its result is the pair \<open>(message, output_file)\<close>.
  \<open>get_duration\<close> is \<open>None\<close> when the import or the call fails (line 632 swallows both).
\<close>

record env =
  OUTPUT_DIR :: pystr
  timestamp :: pystr
  voices_data :: "voice list"
  match_index :: "pystr \<Rightarrow> pystr + pystr option"
  Config :: "pystr + unit"
  run_tts_script :: "tts_args \<Rightarrow> filesystem \<Rightarrow> (pystr + pystr option \<times> pystr) \<times> filesystem"
  get_duration :: "pystr \<Rightarrow> real option"

section \<open>The synthesis endpoint\<close>

text \<open>
  \<open>tts_inference\<close> (lines 499-680), in the order of the source. The handler's outer
  \<open>except Exception\<close> (lines 673-680) turns every exception that is not an
  \<open>HTTPException\<close> into status 500.
\<close>

definition unexpected :: "pystr \<Rightarrow> error" where
  "unexpected e = HTTPException 500 (lit ''Erro ao gerar '' @ [225] @ lit ''udio: '' @ e)"

text \<open>Lines 524-525: an index path that is \<open>None\<close> or empty is looked up.\<close>

definition resolve_index :: "env \<Rightarrow> TTSInferenceRequest \<Rightarrow> pystr + TTSInferenceRequest" where
  "resolve_index env request =
     (if \<not> truthy (index_path request) then
        (case match_index env (model_path request) of
           Inl e \<Rightarrow> Inl e
         | Inr found \<Rightarrow> Inr (request\<lparr>index_path := found\<rparr>))
      else Inr request)"

definition voice_names :: "env \<Rightarrow> pystr list" where
  "voice_names env = map (\<lambda>v. dict_get v (lit ''ShortName'') []) (voices_data env)"

text \<open>
  Lines 516-547: the checks before any file name is made, in this order: model path,
  index path, voice, custom embedder. The result is the request with its index path
  resolved.
\<close>

definition tts_inference_validate ::
  "env \<Rightarrow> filesystem \<Rightarrow> TTSInferenceRequest \<Rightarrow> error + TTSInferenceRequest" where
  "tts_inference_validate env fs request0 =
     (if \<not> os_path_exists fs (model_path request0) then
        Inl (HTTPException 404
               (lit ''Modelo n'' @ [227] @ lit ''o encontrado: '' @ model_path request0))
      else
        (case resolve_index env request0 of
           Inl e \<Rightarrow> Inl (unexpected e)
         | Inr request \<Rightarrow>
             if (case index_path request of
                   None \<Rightarrow> False
                 | Some p \<Rightarrow> p \<noteq> [] \<and> \<not> os_path_exists fs p) then
               Inl (HTTPException 404
                      (lit ''Arquivo index n'' @ [227] @ lit ''o encontrado: '' @
                       (case index_path request of None \<Rightarrow> [] | Some p \<Rightarrow> p)))
             else if tts_voice request \<notin> set (voice_names env) then
               Inl (HTTPException 404
                      (lit ''Voz TTS n'' @ [227] @ lit ''o encontrada: '' @ tts_voice request @
                       lit ''. Use /voices para listar vozes dispon'' @ [237] @ lit ''veis.''))
             else if embedder_model request = lit ''custom'' \<and>
                     \<not> truthy (embedder_model_custom request) then
               Inl (HTTPException 400
                      (lit ''embedder_model_custom '' @ [233] @ lit '' obrigat'' @ [243] @
                       lit ''rio quando embedder_model='' @ [39] @ lit ''custom'' @ [39]))
             else Inr request))"

text \<open>Lines 549-566: the name of the intermediate file and of the final file.\<close>

definition tts_output_path :: "env \<Rightarrow> pystr" where
  "tts_output_path env =
     os_path_join (OUTPUT_DIR env) (lit ''tts_output_'' @ timestamp env @ lit ''.wav'')"

definition recognized_extensions :: "pystr list" where
  "recognized_extensions = [lit ''.wav'', lit ''.mp3'', lit ''.flac'', lit ''.ogg'', lit ''.m4a'']"

definition rvc_output_filename :: "env \<Rightarrow> TTSInferenceRequest \<Rightarrow> pystr" where
  "rvc_output_filename env request =
     (if truthy (output_filename request) then
        (case output_filename request of
           None \<Rightarrow> []
         | Some name \<Rightarrow>
             if \<not> endswith name recognized_extensions
             then name @ [46] @ str_lower (export_format request)
             else name)
      else lit ''tts_rvc_output_'' @ timestamp env @ [46] @ str_lower (export_format request))"

definition rvc_output_path :: "env \<Rightarrow> TTSInferenceRequest \<Rightarrow> pystr" where
  "rvc_output_path env request = os_path_join (OUTPUT_DIR env) (rvc_output_filename env request)"

text \<open>Lines 584-609: the arguments handed to \<open>run_tts_script\<close>.\<close>

definition run_args :: "env \<Rightarrow> TTSInferenceRequest \<Rightarrow> tts_args" where
  "run_args env request =
     \<lparr>a_tts_file = [],
      a_tts_text = req_text request,
      a_tts_voice = tts_voice request,
      a_tts_rate = tts_rate request,
      a_pitch = pitch request,
      a_index_rate = index_rate request,
      a_volume_envelope = volume_envelope request,
      a_protect = protect request,
      a_f0_method = f0_method request,
      a_output_tts_path = tts_output_path env,
      a_output_rvc_path = rvc_output_path env request,
      a_pth_path = model_path request,
      a_index_path = (case index_path request of None \<Rightarrow> [] | Some p \<Rightarrow> p),
      a_split_audio = split_audio request,
      a_f0_autotune = f0_autotune request,
      a_f0_autotune_strength = f0_autotune_strength request,
      a_proposed_pitch = proposed_pitch request,
      a_proposed_pitch_threshold = proposed_pitch_threshold request,
      a_clean_audio = clean_audio request,
      a_clean_strength = clean_strength request,
      a_export_format = export_format request,
      a_embedder_model = embedder_model request,
      a_embedder_model_custom = embedder_model_custom request,
      a_sid = sid request\<rparr>"

text \<open>
  Lines 635-647: with \<open>return_base64\<close> the final file is read and encoded, then removed;
  \<open>output_file\<close> becomes \<open>None\<close> only after a removal that did not raise. The result is
  the payload, the value of \<open>output_file\<close> afterwards, and the filesystem; \<open>Inl\<close> when
  reading raises.
\<close>

definition encode_output ::
  "filesystem \<Rightarrow> TTSInferenceRequest \<Rightarrow> pystr \<Rightarrow>
     pystr + (pystr option \<times> pystr option \<times> filesystem)" where
  "encode_output fs request output_file =
     (if return_base64 request then
        (case read_bytes fs output_file of
           Inl e \<Rightarrow> Inl e
         | Inr audio_bytes \<Rightarrow>
             (case os_remove fs output_file of
                Some fs' \<Rightarrow> Inr (Some (b64encode audio_bytes), None, fs')
              | None \<Rightarrow> Inr (Some (b64encode audio_bytes), Some output_file, fs)))
      else Inr (None, Some output_file, fs))"

text \<open>Lines 649-654: the intermediate file is removed if it is there; a failure is ignored.\<close>

definition cleanup_tts :: "filesystem \<Rightarrow> pystr \<Rightarrow> filesystem" where
  "cleanup_tts fs path =
     (if os_path_exists fs path then
        (case os_remove fs path of Some fs' \<Rightarrow> fs' | None \<Rightarrow> fs)
      else fs)"

definition default_message :: pystr where
  "default_message = [9989] @ lit '' '' @ [193] @ lit ''udio gerado com sucesso''"

text \<open>Lines 616-669: from the return of \<open>run_tts_script\<close> to the response.\<close>

definition tts_inference_result ::
  "env \<Rightarrow> filesystem \<Rightarrow> TTSInferenceRequest \<Rightarrow> pystr option \<Rightarrow> pystr \<Rightarrow>
     (error + TTSInferenceResponse) \<times> filesystem" where
  "tts_inference_result env fs request message output_file0 =
     (if \<not> os_path_exists fs output_file0 then
        (Inl (HTTPException 500
                (lit ''Erro ao gerar '' @ [225] @ lit ''udio: arquivo n'' @ [227] @
                 lit ''o foi criado'')), fs)
      else
        (case os_path_getsize fs output_file0 of
           Inl e \<Rightarrow> (Inl (unexpected e), fs)
         | Inr file_size \<Rightarrow>
             (case encode_output fs request output_file0 of
                Inl e \<Rightarrow> (Inl (unexpected e), fs)
              | Inr (base64_audio, output_file, fs1) \<Rightarrow>
                  (Inr \<lparr>r_success = True,
                        r_message = (if truthy message
                                     then (case message of None \<Rightarrow> [] | Some m \<Rightarrow> m)
                                     else default_message),
                        r_text = req_text request,
                        r_tts_voice = tts_voice request,
                        r_model_path = model_path request,
                        r_index_path = index_path request,
                        r_output_file = (if truthy output_file
                                         then map_option basename output_file else None),
                        r_output_path = (if truthy output_file \<and> \<not> return_base64 request
                                         then output_file else None),
                        r_base64 = base64_audio,
                        r_format = (if return_base64 request
                                    then Some (str_upper (export_format request)) else None),
                        r_size_kb = real file_size / 1024,
                        r_duration_seconds = get_duration env output_file0\<rparr>,
                   cleanup_tts fs1 (tts_output_path env)))))"

definition tts_inference ::
  "env \<Rightarrow> filesystem \<Rightarrow> TTSInferenceRequest \<Rightarrow> (error + TTSInferenceResponse) \<times> filesystem" where
  "tts_inference env fs request0 =
     (case tts_inference_validate env fs request0 of
        Inl e \<Rightarrow> (Inl e, fs)
      | Inr request \<Rightarrow>
          (case Config env of
             Inl e \<Rightarrow> (Inl (unexpected e), fs)
           | Inr _ \<Rightarrow>
               (case run_tts_script env (run_args env request) fs of
                  (Inl e, fs1) \<Rightarrow>
                    (Inl (HTTPException 500 (lit ''Erro ao gerar TTS: '' @ e)), fs1)
                | (Inr (message, output_file), fs1) \<Rightarrow>
                    tts_inference_result env fs1 request message output_file)))"

section \<open>The simplified endpoint\<close>

text \<open>
  \<open>tts_generate_simple\<close> (lines 424-496). \<open>full_request\<close> is lines 451-494: the text is
  cleaned, the format is checked, and the \<open>TTSInferenceRequest\<close> is built, which makes
  pydantic check its constraints.
\<close>

definition valid_formats :: "pystr list" where
  "valid_formats = [lit ''WAV'', lit ''MP3'', lit ''FLAC'', lit ''OGG'', lit ''M4A'']"

definition full_request :: "SimpleTTSRequest \<Rightarrow> error + TTSInferenceRequest" where
  "full_request request =
     (let cleaned_text = clean_text (s_text request) in
      if cleaned_text = [] then
        Inl (HTTPException 400
               (lit ''Texto inv'' @ [225] @ lit ''lido ou vazio ap'' @ [243] @ lit ''s limpeza''))
      else
        (let output_format = str_upper (s_output_format request) in
         if output_format \<notin> set valid_formats then
           Inl (HTTPException 400
                  (lit ''Formato inv'' @ [225] @ lit ''lido: '' @ output_format @
                   lit ''. Formatos v'' @ [225] @ lit ''lidos: '' @
                   str_join (lit '', '') valid_formats))
         else
           (let full =
              \<lparr>req_text = cleaned_text,
               tts_voice = s_tts_voice request,
               model_path = s_model_path request,
               index_path = s_index_path request,
               tts_rate = s_tts_rate request,
               pitch = 0,
               index_rate = 0.75,
               volume_envelope = 1.0,
               protect = 0.5,
               f0_method = lit ''rmvpe'',
               split_audio = False,
               f0_autotune = False,
               f0_autotune_strength = 1.0,
               proposed_pitch = False,
               proposed_pitch_threshold = 155.0,
               clean_audio = False,
               clean_strength = 0.5,
               export_format = output_format,
               embedder_model = lit ''contentvec'',
               embedder_model_custom = None,
               sid = 0,
               return_base64 = True,
               output_filename = None\<rparr>
            in if TTSInferenceRequest_valid full then Inr full else Inl ValidationError)))"

definition tts_generate_simple ::
  "env \<Rightarrow> filesystem \<Rightarrow> SimpleTTSRequest \<Rightarrow> (error + TTSInferenceResponse) \<times> filesystem" where
  "tts_generate_simple env fs request =
     (case full_request request of
        Inl e \<Rightarrow> (Inl e, fs)
      | Inr full \<Rightarrow> tts_inference env fs full)"

section \<open>Voices and downloads\<close>

text \<open>
  \<open>list_voices\<close> (lines 272-316). On a catalogue of dictionaries of strings nothing in
  the body raises, so the \<open>except\<close> branch has no case here.
\<close>

definition voice_info :: "voice \<Rightarrow> VoiceInfo" where
  "voice_info v =
     \<lparr>vi_short_name = dict_get v (lit ''ShortName'') [],
      vi_name = dict_get v (lit ''Name'') [],
      vi_locale = dict_get v (lit ''Locale'') [],
      vi_gender = dict_get v (lit ''Gender'') [],
      vi_language = (if str_in [45] (dict_get v (lit ''Locale'') [])
                     then hd (split_on 45 (dict_get v (lit ''Locale'') []))
                     else dict_get v (lit ''Locale'') [])\<rparr>"

definition filtered_voices :: "env \<Rightarrow> pystr option \<Rightarrow> voice list" where
  "filtered_voices env language =
     (if truthy language then
        filter (\<lambda>v. str_in (str_lower (case language of None \<Rightarrow> [] | Some l \<Rightarrow> l))
                       (str_lower (dict_get v (lit ''ShortName'') [])))
          (voices_data env)
      else voices_data env)"

definition list_voices :: "env \<Rightarrow> pystr option \<Rightarrow> VoicesListResponse" where
  "list_voices env language =
     (let voices_list = map voice_info (filtered_voices env language) in
      \<lparr>vl_success = True,
       vl_voices = voices_list,
       vl_total = length voices_list,
       vl_language_filter = language\<rparr>)"



section \<open>Inside the output directory\<close>




section \<open>A concrete deployment\<close>

text \<open>
  The statements that follow are evaluated on one deployment: a catalogue with the
  French voice Henri, one model file, the output directory \<open>/app/assets/audios\<close> and a
  fixed time stamp.
\<close>

definition demo_voice :: voice where
  "demo_voice =
     [lit ''ShortName'' \<mapsto> lit ''fr-FR-HenriNeural'',
      lit ''Name'' \<mapsto> lit ''Microsoft Henri Online (Natural) - French (France)'',
      lit ''Locale'' \<mapsto> lit ''fr-FR'',
      lit ''Gender'' \<mapsto> lit ''Male'']"

text \<open>
  Three stand-ins for \<open>run_tts_script\<close>: one that writes the intermediate and the final
  file and returns its text argument as the message, one that writes the intermediate
  file and then raises, and one that returns without having written anything.
\<close>

definition demo_pipeline ::
  "tts_args \<Rightarrow> filesystem \<Rightarrow> (pystr + pystr option \<times> pystr) \<times> filesystem" where
  "demo_pipeline a fs =
     (Inr (Some (a_tts_text a), a_output_rvc_path a),
      fs\<lparr>files := (files fs)(a_output_tts_path a \<mapsto> [82, 73], a_output_rvc_path a \<mapsto> [79, 103, 103])\<rparr>)"

definition failing_pipeline ::
  "tts_args \<Rightarrow> filesystem \<Rightarrow> (pystr + pystr option \<times> pystr) \<times> filesystem" where
  "failing_pipeline a fs =
     (Inl (lit ''conversion failed''),
      fs\<lparr>files := (files fs)(a_output_tts_path a \<mapsto> [82, 73])\<rparr>)"

definition silent_pipeline ::
  "tts_args \<Rightarrow> filesystem \<Rightarrow> (pystr + pystr option \<times> pystr) \<times> filesystem" where
  "silent_pipeline a fs = (Inr (None, a_output_rvc_path a), fs)"

definition demo_env :: env where
  "demo_env =
     \<lparr>OUTPUT_DIR = lit ''/app/assets/audios'',
      timestamp = lit ''20240101_120000'',
      voices_data = [demo_voice],
      match_index = (\<lambda>p. Inr None),
      Config = Inr (),
      run_tts_script = demo_pipeline,
      get_duration = (\<lambda>p. None)\<rparr>"

definition failing_env :: env where
  "failing_env = demo_env\<lparr>run_tts_script := failing_pipeline\<rparr>"

definition silent_env :: env where
  "silent_env = demo_env\<lparr>run_tts_script := silent_pipeline\<rparr>"

text \<open>
  Filesystems: the model file alone; the same with the removal of the final file
  refused, or that of the intermediate file; and one with a file two levels above the
  output directory.
\<close>

definition demo_fs :: filesystem where
  "demo_fs = \<lparr>files = [lit ''logs/m/m.pth'' \<mapsto> [1]], undeletable = {}, unreadable = Map.empty\<rparr>"

definition final_path :: pystr where
  "final_path = lit ''/app/assets/audios/tts_rvc_output_20240101_120000.wav''"

definition intermediate_path :: pystr where
  "intermediate_path = lit ''/app/assets/audios/tts_output_20240101_120000.wav''"

definition locked_fs :: filesystem where
  "locked_fs = demo_fs\<lparr>undeletable := {final_path}\<rparr>"

definition stuck_fs :: filesystem where
  "stuck_fs = demo_fs\<lparr>undeletable := {intermediate_path}\<rparr>"


text \<open>
  Requests: the plain one, and variants of it with base64 output, with a custom embedder
  and no path for it, with an output name equal to that of the intermediate file, with
  an output name without extension, and with a text that the sanitizer would change.
\<close>

definition demo_request :: TTSInferenceRequest where
  "demo_request =
     \<lparr>req_text = lit ''Bonjour'',
      tts_voice = lit ''fr-FR-HenriNeural'',
      model_path = lit ''logs/m/m.pth'',
      index_path = None,
      tts_rate = 0,
      pitch = 0,
      index_rate = 0.75,
      volume_envelope = 1.0,
      protect = 0.5,
      f0_method = lit ''rmvpe'',
      split_audio = False,
      f0_autotune = False,
      f0_autotune_strength = 1.0,
      proposed_pitch = False,
      proposed_pitch_threshold = 155.0,
      clean_audio = False,
      clean_strength = 0.5,
      export_format = lit ''WAV'',
      embedder_model = lit ''contentvec'',
      embedder_model_custom = None,
      sid = 0,
      return_base64 = False,
      output_filename = None\<rparr>"

definition base64_request :: TTSInferenceRequest where
  "base64_request = demo_request\<lparr>return_base64 := True\<rparr>"

definition custom_embedder_request :: TTSInferenceRequest where
  "custom_embedder_request =
     demo_request\<lparr>embedder_model := lit ''custom'', embedder_model_custom := Some []\<rparr>"

definition clash_request :: TTSInferenceRequest where
  "clash_request = demo_request\<lparr>output_filename := Some (lit ''tts_output_20240101_120000.wav'')\<rparr>"


definition dirty_request :: TTSInferenceRequest where
  "dirty_request = demo_request\<lparr>req_text := lit '' Bon'' @ [7] @ lit ''jour'' @ [13, 10]\<rparr>"

text \<open>Requests of the simplified shape: one with the same text, one with a blank text.\<close>

definition demo_simple :: SimpleTTSRequest where
  "demo_simple =
     \<lparr>s_text = lit '' Bon'' @ [7] @ lit ''jour'' @ [13, 10],
      s_tts_voice = lit ''fr-FR-HenriNeural'',
      s_model_path = lit ''logs/m/m.pth'',
      s_index_path = None,
      s_tts_rate = 0,
      s_return_base64 = False,
      s_output_format = lit ''ogg''\<rparr>"


text \<open>
  The responses to the plain and to the base64 request, and the filesystem the first
  stand-in leaves when the intermediate file cannot be removed.
\<close>

definition plain_response :: TTSInferenceResponse where
  "plain_response =
     \<lparr>r_success = True,
      r_message = lit ''Bonjour'',
      r_text = lit ''Bonjour'',
      r_tts_voice = lit ''fr-FR-HenriNeural'',
      r_model_path = lit ''logs/m/m.pth'',
      r_index_path = None,
      r_output_file = Some (lit ''tts_rvc_output_20240101_120000.wav''),
      r_output_path = Some final_path,
      r_base64 = None,
      r_format = None,
      r_size_kb = 3 / 1024,
      r_duration_seconds = None\<rparr>"

definition base64_response :: TTSInferenceResponse where
  "base64_response =
     plain_response\<lparr>r_output_file := None, r_output_path := None,
       r_base64 := Some (lit ''T2dn''), r_format := Some (lit ''WAV'')\<rparr>"

definition after_pipeline :: filesystem where
  "after_pipeline = snd (demo_pipeline (run_args demo_env demo_request) stuck_fs)"

section \<open>Evaluation rules\<close>

lemma str_replace_Nil: "old \<noteq> [] \<Longrightarrow> str_replace old new [] = []"
  by (simp add: str_replace.simps)

lemma str_replace_Cons:
  "old \<noteq> [] \<Longrightarrow> str_replace old new (c # s) =
     (if prefix old (c # s) then new @ str_replace old new (drop (length old) (c # s))
      else c # str_replace old new s)"
  by (subst str_replace.simps) simp

lemmas str_eval = lit_def clean_text_def control_char_def str_replace_Cons str_replace_Nil
  strip_def py_isspace_def str_upper_def str_lower_def endswith_def suffix_def

lemmas request_eval = demo_request_def base64_request_def custom_embedder_request_def

lemmas handler_eval = tts_inference_def tts_inference_validate_def resolve_index_def
  voice_names_def dict_get_def run_args_def tts_output_path_def rvc_output_path_def
  rvc_output_filename_def recognized_extensions_def os_path_join_def
  tts_inference_result_def encode_output_def cleanup_tts_def os_path_exists_def
  os_path_getsize_def read_bytes_def os_remove_def basename_def default_message_def

lemmas demo_eval = demo_env_def demo_fs_def demo_pipeline_def demo_voice_def
  final_path_def intermediate_path_def locked_fs_def

lemmas scenario_eval = demo_eval request_eval stuck_fs_def failing_env_def clash_request_def
  plain_response_def base64_response_def failing_pipeline_def

lemmas all_eval = handler_eval scenario_eval str_eval b64_char_def b64_alphabet_def

section \<open>Properties of the text sanitizer\<close>

lemma str_replace_cr: "str_replace [13] [10] s = map (\<lambda>c. if c = 13 then 10 else c) s"
  by (induction s) (simp_all add: str_replace_Nil str_replace_Cons)

lemma str_replace_crlf_Cons2:
  "str_replace [13, 10] [10] (c # d # s) =
     (if c = 13 \<and> d = 10 then 10 # str_replace [13, 10] [10] s
      else c # str_replace [13, 10] [10] (d # s))"
  by (simp add: str_replace_Cons)

lemma str_replace_crlf_single: "str_replace [13, 10] [10] [c] = [c]"
  by (simp add: str_replace_Cons str_replace_Nil)

lemma normalize_newlines_eq:
  "str_replace [13] [10] (str_replace [13, 10] [10] s) = normalize_newlines s"
proof (induction s rule: normalize_newlines.induct)
  case 1
  show ?case by (simp add: str_replace_Nil)
next
  case (2 c)
  show ?case by (simp add: str_replace_crlf_single str_replace_cr)
next
  case (3 c d s)
  then show ?case
    by (simp add: str_replace_crlf_Cons2 str_replace_cr)
qed

lemma set_normalize_newlines:
  "set (normalize_newlines s) \<subseteq> (set s - {13}) \<union> {10}"
  by (induction s rule: normalize_newlines.induct) auto


lemma set_strip: "set (strip s) \<subseteq> set s"
  by (auto simp: strip_def dest!: set_dropWhileD)


lemma strip_ends:
  assumes "strip s \<noteq> []"
  shows "\<not> py_isspace (hd (strip s))" and "\<not> py_isspace (last (strip s))"
proof -
  define t where "t = dropWhile py_isspace s"
  define u where "u = dropWhile py_isspace (rev t)"
  have su: "strip s = rev u" by (simp add: strip_def t_def u_def)
  with assms have u: "u \<noteq> []" by simp
  then have t: "t \<noteq> []" by (auto simp: u_def)
  have "\<not> py_isspace (hd u)" using u unfolding u_def by (rule hd_dropWhile)
  then show "\<not> py_isspace (last (strip s))" using u by (simp add: su last_rev)
  obtain v where v: "rev t = v @ u"
    unfolding u_def by (metis takeWhile_dropWhile_id)
  have "last u = last (rev t)" using u v by simp
  also have "\<dots> = hd t" using t by (simp add: last_rev)
  finally have "hd (strip s) = hd t" using u by (simp add: su hd_rev)
  moreover have "\<not> py_isspace (hd t)" using t unfolding t_def by (rule hd_dropWhile)
  ultimately show "\<not> py_isspace (hd (strip s))" by simp
qed

lemma clean_text_alt:
  "clean_text t = strip (normalize_newlines (filter (\<lambda>c. \<not> control_char c) t))"
  by (simp add: clean_text_def normalize_newlines_eq)


text \<open>
  C6. \<open>clean_text\<close> is a total function of its argument alone. For every text, its
  result is the input with the control characters of the pattern removed, every CR LF
  and every other CR turned into LF, and white space trimmed at both ends; the result
  has no code point below 0x20 other than newline and tab, has no carriage return, and
  neither starts nor ends with a white-space character.
\<close>

theorem clean_text_sanitized:
  "clean_text t = strip (normalize_newlines (filter (\<lambda>c. \<not> control_char c) t)) \<and>
   (\<forall>c \<in> set (clean_text t). (c < 32 \<longrightarrow> c = 10 \<or> c = 9) \<and> c \<noteq> 13) \<and>
   (clean_text t \<noteq> [] \<longrightarrow>
      \<not> py_isspace (hd (clean_text t)) \<and> \<not> py_isspace (last (clean_text t)))"
proof -
  let ?n = "normalize_newlines (filter (\<lambda>c. \<not> control_char c) t)"
  have chars: "(c < 32 \<longrightarrow> c = 10 \<or> c = 9) \<and> c \<noteq> 13" if "c \<in> set (clean_text t)" for c
  proof -
    from that have "c \<in> set ?n"
      unfolding clean_text_alt using set_strip by blast
    then have "c = 10 \<or> (c \<noteq> 13 \<and> \<not> control_char c)"
      using set_normalize_newlines by fastforce
    then show ?thesis by (auto simp: control_char_def)
  qed
  have ends: "\<not> py_isspace (hd (clean_text t)) \<and> \<not> py_isspace (last (clean_text t))"
    if "clean_text t \<noteq> []"
    using that strip_ends [of ?n] by (simp add: clean_text_alt)
  show ?thesis using chars ends clean_text_alt by blast
qed

theorem clean_text_sanitized_witness:
  "clean_text (lit '' a'' @ [0, 13, 10, 7] @ lit ''b'' @ [13] @ lit ''c '' @ [9, 10]) =
     [97, 10, 98, 10, 99] \<and>
   set (clean_text (lit '' a'' @ [0, 13, 10, 7] @ lit ''b'' @ [13] @ lit ''c '' @ [9, 10])) \<inter>
     {0, 7, 13, 32} = {} \<and>
   \<not> py_isspace (hd (clean_text (lit '' a'' @ [0, 13, 10, 7] @ lit ''b'' @ [13] @ lit ''c '' @ [9, 10]))) \<and>
   \<not> py_isspace (last (clean_text (lit '' a'' @ [0, 13, 10, 7] @ lit ''b'' @ [13] @ lit ''c '' @ [9, 10])))"
  using clean_text_sanitized
    [of "lit '' a'' @ [0, 13, 10, 7] @ lit ''b'' @ [13] @ lit ''c '' @ [9, 10]"]
  by (simp add: str_eval)

section \<open>Rejection of a missing model\<close>

lemma str_in_append: "str_in sub (pre @ sub @ post)"
proof (induction pre)
  case Nil
  show ?case
  proof (cases "sub @ post")
    case Nil
    then show ?thesis by simp
  next
    case (Cons a list)
    have "prefix sub (sub @ post)" by simp
    then show ?thesis by (simp add: Cons)
  qed
next
  case (Cons c pre)
  then show ?case by simp
qed

text \<open>
  C1. When the model path of a request does not exist, \<open>tts_inference\<close> raises
  \<open>HTTPException\<close> 404 whose detail ends with the path as given, and the filesystem after
  the call is the one before it. This holds for every environment, so for every
  \<open>run_tts_script\<close>: the result does not depend on the pipeline, which is not called.
\<close>

theorem tts_inference_model_not_found:
  assumes "\<not> os_path_exists fs (model_path request)"
  shows "tts_inference env fs request =
           (Inl (HTTPException 404
                   (lit ''Modelo n'' @ [227] @ lit ''o encontrado: '' @ model_path request)), fs) \<and>
         str_in (model_path request)
           (lit ''Modelo n'' @ [227] @ lit ''o encontrado: '' @ model_path request)"
proof
  show "tts_inference env fs request =
           (Inl (HTTPException 404
                   (lit ''Modelo n'' @ [227] @ lit ''o encontrado: '' @ model_path request)), fs)"
    using assms by (simp add: tts_inference_def tts_inference_validate_def)
  show "str_in (model_path request)
           (lit ''Modelo n'' @ [227] @ lit ''o encontrado: '' @ model_path request)"
    using str_in_append [of "model_path request" "lit ''Modelo n'' @ [227] @ lit ''o encontrado: ''" "[]"]
    by simp
qed

theorem tts_inference_model_not_found_witness:
  "\<not> os_path_exists demo_fs (lit ''logs/none.pth'') \<and>
   tts_inference demo_env demo_fs (demo_request\<lparr>model_path := lit ''logs/none.pth''\<rparr>) =
     (Inl (HTTPException 404 (lit ''Modelo n'' @ [227] @ lit ''o encontrado: logs/none.pth'')),
      demo_fs)"
  using tts_inference_model_not_found
    [of demo_fs "demo_request\<lparr>model_path := lit ''logs/none.pth''\<rparr>" demo_env]
  by (simp add: demo_fs_def os_path_exists_def lit_def)

section \<open>The order of the checks\<close>

lemma resolve_index_InrD:
  "resolve_index env request = Inr request' \<Longrightarrow> \<exists>x. request' = request\<lparr>index_path := x\<rparr>"
proof (cases "truthy (index_path request)")
  case True
  assume "resolve_index env request = Inr request'"
  with True have "request' = request\<lparr>index_path := index_path request\<rparr>"
    by (simp add: resolve_index_def)
  then show ?thesis by blast
next
  case False
  assume "resolve_index env request = Inr request'"
  with False show ?thesis
    by (auto simp: resolve_index_def split: sum.splits)
qed

lemma validate_InrD:
  assumes "tts_inference_validate env fs request = Inr request'"
  shows "\<exists>x. request' = request\<lparr>index_path := x\<rparr>"
    and "os_path_exists fs (model_path request)"
    and "tts_voice request \<in> set (voice_names env)"
    and "\<not> (embedder_model request = lit ''custom'' \<and> \<not> truthy (embedder_model_custom request))"
proof -
  from assms have m: "os_path_exists fs (model_path request)"
    by (auto simp: tts_inference_validate_def split: if_splits)
  with assms obtain r1 where r1: "resolve_index env request = Inr r1"
    by (cases "resolve_index env request") (auto simp: tts_inference_validate_def)
  then obtain x where x: "r1 = request\<lparr>index_path := x\<rparr>"
    using resolve_index_InrD by blast
  from assms m r1 have "request' = r1"
    by (simp add: tts_inference_validate_def split: if_splits)
  with x show "\<exists>x. request' = request\<lparr>index_path := x\<rparr>" by blast
  show "os_path_exists fs (model_path request)" by (rule m)
  from assms m r1 x show "tts_voice request \<in> set (voice_names env)"
    by (simp add: tts_inference_validate_def split: if_splits)
  from assms m r1 x
  show "\<not> (embedder_model request = lit ''custom'' \<and> \<not> truthy (embedder_model_custom request))"
    by (simp add: tts_inference_validate_def split: if_splits)
qed




section \<open>Runs that reach the pipeline\<close>


lemma tts_inference_run:
  assumes "tts_inference_validate env fs request = Inr request'"
    and "Config env = Inr u"
  shows "tts_inference env fs request =
     (case run_tts_script env (run_args env request') fs of
        (Inl e, fs1) \<Rightarrow> (Inl (HTTPException 500 (lit ''Erro ao gerar TTS: '' @ e)), fs1)
      | (Inr (message, output_file), fs1) \<Rightarrow>
          tts_inference_result env fs1 request' message output_file)"
  using assms by (simp add: tts_inference_def)

lemma files_cleanup_tts:
  "files (cleanup_tts fs p) q =
     (if q = p \<and> os_path_exists fs p \<and> p \<notin> undeletable fs then None else files fs q)"
  by (simp add: cleanup_tts_def os_remove_def)

lemma undeletable_cleanup_tts: "undeletable (cleanup_tts fs p) = undeletable fs"
  by (simp add: cleanup_tts_def os_remove_def)

lemma exists_cleanup_tts:
  "os_path_exists (cleanup_tts fs p) q \<longleftrightarrow>
     os_path_exists fs q \<and> \<not> (q = p \<and> p \<notin> undeletable fs)"
  by (auto simp: os_path_exists_def files_cleanup_tts)

lemma exists_undeletable_update [simp]:
  "os_path_exists (fs\<lparr>undeletable := U\<rparr>) p = os_path_exists fs p"
  by (simp add: os_path_exists_def)




lemma result_plain:
  assumes "os_path_exists fs1 output_file" and "\<not> return_base64 request"
  shows "tts_inference_result env fs1 request message output_file =
     (Inr \<lparr>r_success = True,
           r_message = (if truthy message then (case message of None \<Rightarrow> [] | Some m \<Rightarrow> m)
                        else default_message),
           r_text = req_text request,
           r_tts_voice = tts_voice request,
           r_model_path = model_path request,
           r_index_path = index_path request,
           r_output_file = Some (basename output_file),
           r_output_path = Some output_file,
           r_base64 = None,
           r_format = None,
           r_size_kb = real (length (the (files fs1 output_file))) / 1024,
           r_duration_seconds = get_duration env output_file\<rparr>,
      cleanup_tts fs1 (tts_output_path env))"
  using assms
  by (auto simp: tts_inference_result_def os_path_getsize_def encode_output_def os_path_exists_def)

lemma result_base64:
  assumes "os_path_exists fs1 output_file" and "return_base64 request"
    and "unreadable fs1 output_file = None"
  shows "tts_inference_result env fs1 request message output_file =
     (Inr \<lparr>r_success = True,
           r_message = (if truthy message then (case message of None \<Rightarrow> [] | Some m \<Rightarrow> m)
                        else default_message),
           r_text = req_text request,
           r_tts_voice = tts_voice request,
           r_model_path = model_path request,
           r_index_path = index_path request,
           r_output_file = (if output_file \<in> undeletable fs1
                            then Some (basename output_file) else None),
           r_output_path = None,
           r_base64 = Some (b64encode (the (files fs1 output_file))),
           r_format = Some (str_upper (export_format request)),
           r_size_kb = real (length (the (files fs1 output_file))) / 1024,
           r_duration_seconds = get_duration env output_file\<rparr>,
      cleanup_tts
        (if output_file \<in> undeletable fs1 then fs1
         else fs1\<lparr>files := (files fs1)(output_file := None)\<rparr>)
        (tts_output_path env))"
  using assms
  by (auto simp: tts_inference_result_def os_path_getsize_def encode_output_def
      os_path_exists_def read_bytes_def os_remove_def)

text \<open>The concrete deployment, evaluated.\<close>

lemma demo_validate:
  "tts_inference_validate demo_env fs demo_request =
     (if os_path_exists fs (lit ''logs/m/m.pth'') then Inr demo_request
      else Inl (HTTPException 404 (lit ''Modelo n'' @ [227] @ lit ''o encontrado: logs/m/m.pth'')))"
  by (simp add: tts_inference_validate_def resolve_index_def voice_names_def dict_get_def
      demo_env_def demo_request_def demo_voice_def lit_def)



lemma demo_final_path:
  "rvc_output_path demo_env demo_request = final_path"
  "rvc_output_path demo_env base64_request = final_path"
  by (simp_all add: rvc_output_path_def rvc_output_filename_def os_path_join_def
      scenario_eval str_eval)

lemma demo_plain_run:
  "tts_inference demo_env demo_fs demo_request =
     (Inr plain_response, snd (tts_inference demo_env demo_fs demo_request))"
  by (simp add: prod_eq_iff) (simp add: all_eval)


section \<open>The shape of a successful result\<close>



section \<open>Cleanup\<close>

text \<open>
  C7. When the pipeline returns, its output file exists and (with \<open>return_base64\<close>) can
  be read, \<open>tts_inference\<close> returns a response; the intermediate file is gone afterwards
  unless its removal is refused; under any other set \<open>U\<close> of paths whose removal is
  refused the call still returns a response, equal to this one in every field except
  possibly \<open>output_file\<close>, and equal in all fields when the final file is treated alike
  or \<open>return_base64\<close> is off. When the pipeline raises, or its output file is missing,
  the call fails with status 500 and the filesystem is left as the pipeline left it.
\<close>

theorem cleanup_best_effort:
  "(tts_inference_validate env fs request = Inr request' \<and> Config env = Inr () \<and>
    run_tts_script env (run_args env request') fs = (Inr (message, output_file), fs1) \<and>
    os_path_exists fs1 output_file \<and>
    (return_base64 request \<longrightarrow> unreadable fs1 output_file = None) \<longrightarrow>
      (\<exists>resp fs'.
         tts_inference env fs request = (Inr resp, fs') \<and>
         (tts_output_path env \<notin> undeletable fs1 \<longrightarrow>
            \<not> os_path_exists fs' (tts_output_path env)) \<and>
         (\<forall>U. \<exists>resp'.
            fst (tts_inference_result env (fs1\<lparr>undeletable := U\<rparr>) request' message output_file) =
              Inr resp' \<and>
            resp'\<lparr>r_output_file := r_output_file resp\<rparr> = resp \<and>
            (\<not> return_base64 request \<or>
             (output_file \<in> U \<longleftrightarrow> output_file \<in> undeletable fs1) \<longrightarrow> resp' = resp)))) \<and>
   (tts_inference_validate env fs request = Inr request' \<and> Config env = Inr () \<and>
    run_tts_script env (run_args env request') fs = (Inl e, fs1) \<longrightarrow>
      tts_inference env fs request =
        (Inl (HTTPException 500 (lit ''Erro ao gerar TTS: '' @ e)), fs1)) \<and>
   (tts_inference_validate env fs request = Inr request' \<and> Config env = Inr () \<and>
    run_tts_script env (run_args env request') fs = (Inr (message, output_file), fs1) \<and>
    \<not> os_path_exists fs1 output_file \<longrightarrow>
      tts_inference env fs request =
        (Inl (HTTPException 500
                (lit ''Erro ao gerar '' @ [225] @ lit ''udio: arquivo n'' @ [227] @
                 lit ''o foi criado'')), fs1))"
proof (intro conjI impI)
  assume a: "tts_inference_validate env fs request = Inr request' \<and> Config env = Inr () \<and>
    run_tts_script env (run_args env request') fs = (Inr (message, output_file), fs1) \<and>
    os_path_exists fs1 output_file \<and>
    (return_base64 request \<longrightarrow> unreadable fs1 output_file = None)"
  then have v: "tts_inference_validate env fs request = Inr request'"
    and r: "run_tts_script env (run_args env request') fs = (Inr (message, output_file), fs1)"
    and e: "os_path_exists fs1 output_file"
    and c: "Config env = Inr ()"
    by simp_all
  from validate_InrD(1) [OF v] have rb: "return_base64 request' = return_base64 request"
    by auto
  have run: "tts_inference env fs request =
               tts_inference_result env fs1 request' message output_file"
    using tts_inference_run [OF v c] r by simp
  show "\<exists>resp fs'.
         tts_inference env fs request = (Inr resp, fs') \<and>
         (tts_output_path env \<notin> undeletable fs1 \<longrightarrow>
            \<not> os_path_exists fs' (tts_output_path env)) \<and>
         (\<forall>U. \<exists>resp'.
            fst (tts_inference_result env (fs1\<lparr>undeletable := U\<rparr>) request' message output_file) =
              Inr resp' \<and>
            resp'\<lparr>r_output_file := r_output_file resp\<rparr> = resp \<and>
            (\<not> return_base64 request \<or>
             (output_file \<in> U \<longleftrightarrow> output_file \<in> undeletable fs1) \<longrightarrow> resp' = resp))"
  proof (cases "return_base64 request")
    case False
    with rb have nb: "\<not> return_base64 request'" by simp
    have other: "tts_inference_result env (fs1\<lparr>undeletable := U\<rparr>) request' message output_file =
        (fst (tts_inference_result env fs1 request' message output_file),
         cleanup_tts (fs1\<lparr>undeletable := U\<rparr>) (tts_output_path env))" for U
      using e nb by (simp add: result_plain)
    show ?thesis
      unfolding run using e nb False other
      by (simp add: result_plain exists_cleanup_tts)
  next
    case True
    with rb a have yb: "return_base64 request'" and u: "unreadable fs1 output_file = None"
      by simp_all
    show ?thesis
      unfolding run using e yb u True
      by (simp add: result_base64 exists_cleanup_tts undeletable_cleanup_tts)
  qed
next
  assume "tts_inference_validate env fs request = Inr request' \<and> Config env = Inr () \<and>
    run_tts_script env (run_args env request') fs = (Inl e, fs1)"
  then show "tts_inference env fs request =
        (Inl (HTTPException 500 (lit ''Erro ao gerar TTS: '' @ e)), fs1)"
    using tts_inference_run [of env fs request request' "()"] by simp
next
  assume "tts_inference_validate env fs request = Inr request' \<and> Config env = Inr () \<and>
    run_tts_script env (run_args env request') fs = (Inr (message, output_file), fs1) \<and>
    \<not> os_path_exists fs1 output_file"
  then show "tts_inference env fs request =
        (Inl (HTTPException 500
                (lit ''Erro ao gerar '' @ [225] @ lit ''udio: arquivo n'' @ [227] @
                 lit ''o foi criado'')), fs1)"
    using tts_inference_run [of env fs request request' "()"]
    by (simp add: tts_inference_result_def)
qed

theorem cleanup_best_effort_witness:
  "tts_inference_validate demo_env stuck_fs demo_request = Inr demo_request \<and>
   Config demo_env = Inr () \<and>
   run_tts_script demo_env (run_args demo_env demo_request) stuck_fs =
     (Inr (Some (lit ''Bonjour''), final_path), after_pipeline) \<and>
   os_path_exists after_pipeline final_path \<and>
   \<not> return_base64 demo_request \<and>
   intermediate_path \<in> undeletable after_pipeline \<and>
   fst (tts_inference demo_env stuck_fs demo_request) = Inr plain_response \<and>
   os_path_exists (snd (tts_inference demo_env stuck_fs demo_request)) intermediate_path \<and>
   fst (tts_inference_result demo_env (after_pipeline\<lparr>undeletable := {}\<rparr>) demo_request
          (Some (lit ''Bonjour'')) final_path) = Inr plain_response \<and>
   tts_output_path demo_env = intermediate_path \<and>
   intermediate_path \<notin> undeletable (snd (demo_pipeline (run_args demo_env demo_request) demo_fs)) \<and>
   fst (tts_inference demo_env demo_fs demo_request) = Inr plain_response \<and>
   \<not> os_path_exists (snd (tts_inference demo_env demo_fs demo_request)) intermediate_path \<and>
   run_tts_script failing_env (run_args failing_env demo_request) demo_fs =
     (Inl (lit ''conversion failed''), snd (failing_pipeline (run_args failing_env demo_request) demo_fs)) \<and>
   tts_inference failing_env demo_fs demo_request =
     (Inl (HTTPException 500 (lit ''Erro ao gerar TTS: conversion failed'')),
      snd (failing_pipeline (run_args failing_env demo_request) demo_fs)) \<and>
   run_tts_script silent_env (run_args silent_env demo_request) demo_fs =
     (Inr (None, final_path), demo_fs) \<and>
   \<not> os_path_exists demo_fs final_path \<and>
   tts_inference silent_env demo_fs demo_request =
     (Inl (HTTPException 500
             (lit ''Erro ao gerar '' @ [225] @ lit ''udio: arquivo n'' @ [227] @
              lit ''o foi criado'')), demo_fs)"
proof -
  let ?free = "snd (demo_pipeline (run_args demo_env demo_request) demo_fs)"
  have v: "tts_inference_validate demo_env stuck_fs demo_request = Inr demo_request"
    by (simp add: demo_validate) (simp add: os_path_exists_def scenario_eval lit_def)
  have c: "Config demo_env = Inr ()" by (simp add: demo_env_def)
  have r: "run_tts_script demo_env (run_args demo_env demo_request) stuck_fs =
     (Inr (Some (lit ''Bonjour''), final_path), after_pipeline)"
    using demo_final_path(1)
    by (simp add: after_pipeline_def demo_env_def demo_pipeline_def run_args_def
        demo_request_def)
  have e: "os_path_exists after_pipeline final_path"
    by (simp add: after_pipeline_def demo_pipeline_def run_args_def demo_final_path
        os_path_exists_def final_path_def lit_def)
  have p: "\<not> return_base64 demo_request" by (simp add: demo_request_def)
  have u: "intermediate_path \<in> undeletable after_pipeline"
    by (simp add: after_pipeline_def demo_pipeline_def stuck_fs_def)
  have tp: "tts_output_path demo_env = intermediate_path"
    by (simp add: tts_output_path_def os_path_join_def demo_env_def intermediate_path_def
        lit_def suffix_def)
  have v0: "tts_inference_validate demo_env demo_fs demo_request = Inr demo_request"
    by (simp add: demo_validate) (simp add: os_path_exists_def demo_fs_def lit_def)
  have r0: "run_tts_script demo_env (run_args demo_env demo_request) demo_fs =
     (Inr (Some (lit ''Bonjour''), final_path), ?free)"
    using demo_final_path(1)
    by (simp add: demo_env_def demo_pipeline_def run_args_def demo_request_def)
  have e0: "os_path_exists ?free final_path"
    by (simp add: demo_pipeline_def run_args_def demo_final_path
        os_path_exists_def final_path_def lit_def)
  have u0: "intermediate_path \<notin> undeletable ?free"
    by (simp add: demo_pipeline_def demo_fs_def)
  have fv: "tts_inference_validate failing_env demo_fs demo_request = Inr demo_request"
    by (simp add: failing_env_def tts_inference_validate_def resolve_index_def voice_names_def
        dict_get_def demo_env_def demo_request_def demo_voice_def os_path_exists_def
        demo_fs_def lit_def)
  have fc: "Config failing_env = Inr ()" by (simp add: failing_env_def demo_env_def)
  have fr: "run_tts_script failing_env (run_args failing_env demo_request) demo_fs =
     (Inl (lit ''conversion failed''),
      snd (failing_pipeline (run_args failing_env demo_request) demo_fs))"
    by (simp add: failing_env_def failing_pipeline_def)
  have sv: "tts_inference_validate silent_env demo_fs demo_request = Inr demo_request"
    by (simp add: silent_env_def tts_inference_validate_def resolve_index_def voice_names_def
        dict_get_def demo_env_def demo_request_def demo_voice_def os_path_exists_def
        demo_fs_def lit_def)
  have sc: "Config silent_env = Inr ()" by (simp add: silent_env_def demo_env_def)
  have "rvc_output_path silent_env demo_request = rvc_output_path demo_env demo_request"
    by (simp add: rvc_output_path_def rvc_output_filename_def silent_env_def)
  then have sr: "run_tts_script silent_env (run_args silent_env demo_request) demo_fs =
     (Inr (None, final_path), demo_fs)"
    by (simp add: demo_final_path silent_env_def silent_pipeline_def run_args_def)
  have se: "\<not> os_path_exists demo_fs final_path"
    by (simp add: os_path_exists_def demo_fs_def final_path_def lit_def)
  from cleanup_best_effort
    [of demo_env stuck_fs demo_request demo_request "Some (lit ''Bonjour'')" final_path
        after_pipeline "lit ''x''"] v c r e p u
  have 1: "fst (tts_inference demo_env stuck_fs demo_request) = Inr plain_response \<and>
        os_path_exists (snd (tts_inference demo_env stuck_fs demo_request)) intermediate_path \<and>
        fst (tts_inference_result demo_env (after_pipeline\<lparr>undeletable := {}\<rparr>) demo_request
          (Some (lit ''Bonjour'')) final_path) = Inr plain_response"
    by (simp add: all_eval after_pipeline_def)
  from cleanup_best_effort
    [of demo_env demo_fs demo_request demo_request "Some (lit ''Bonjour'')" final_path
        ?free "lit ''x''"] v0 c r0 e0 p u0 tp
  have 2: "\<not> os_path_exists (snd (tts_inference demo_env demo_fs demo_request)) intermediate_path"
    by auto
  from cleanup_best_effort
    [of failing_env demo_fs demo_request demo_request "None" "[]"
        "snd (failing_pipeline (run_args failing_env demo_request) demo_fs)" "lit ''conversion failed''"]
    fv fc fr
  have 3: "tts_inference failing_env demo_fs demo_request =
     (Inl (HTTPException 500 (lit ''Erro ao gerar TTS: conversion failed'')),
      snd (failing_pipeline (run_args failing_env demo_request) demo_fs))"
    by (simp add: lit_def)
  from cleanup_best_effort
    [of silent_env demo_fs demo_request demo_request "None" final_path demo_fs "lit ''x''"]
    sv sc sr se
  have 4: "tts_inference silent_env demo_fs demo_request =
     (Inl (HTTPException 500
             (lit ''Erro ao gerar '' @ [225] @ lit ''udio: arquivo n'' @ [227] @
              lit ''o foi criado'')), demo_fs)"
    by simp
  have 5: "fst (tts_inference demo_env demo_fs demo_request) = Inr plain_response"
    by (metis demo_plain_run fst_conv)
  from v c r e p u 1 tp u0 5 2 fr 3 sr se 4 show ?thesis by simp
qed

text \<open>
  C7 as stated fails in two runs: when the pipeline raises after writing the
  intermediate file, the file is still there after the call although it could be
  removed; and a refused removal of the final file changes the \<open>output_file\<close> field of
  the response.
\<close>

theorem failed_cleanup_counterexample:
  "fst (tts_inference failing_env demo_fs demo_request) =
     Inl (HTTPException 500 (lit ''Erro ao gerar TTS: conversion failed'')) \<and>
   os_path_exists (snd (tts_inference failing_env demo_fs demo_request)) intermediate_path \<and>
   intermediate_path \<notin> undeletable (snd (tts_inference failing_env demo_fs demo_request)) \<and>
   r_output_file (projr (fst (tts_inference demo_env demo_fs base64_request))) = None \<and>
   r_output_file (projr (fst (tts_inference demo_env locked_fs base64_request))) =
     Some (lit ''tts_rvc_output_20240101_120000.wav'')"
  by (simp add: all_eval)
section \<open>The simplified request\<close>

lemma str_upper_idem [simp]: "str_upper (str_upper s) = str_upper s"
  by (auto simp: str_upper_def)

lemma str_upper_lower [simp]: "str_upper (str_lower s) = str_upper s"
  by (auto simp: str_upper_def str_lower_def)





section \<open>The name of the final file\<close>



section \<open>The text handed to the pipeline\<close>

lemma simple_shape_text_sanitized:
  assumes "full_request r = Inr full"
    and "tts_inference_validate env fs full = Inr full'"
  shows "a_tts_text (run_args env full') = clean_text (s_text r)"
proof -
  from assms(1) have "req_text full = clean_text (s_text r)"
    by (auto simp: full_request_def Let_def split: if_splits)
  moreover from validate_InrD(1) [OF assms(2)] have "req_text full' = req_text full"
    by auto
  ultimately show ?thesis by (simp add: run_args_def)
qed

lemma full_shape_text_passed_on:
  assumes "tts_inference_validate env fs request = Inr request'"
  shows "a_tts_text (run_args env request') = req_text request"
  using validate_InrD(1) [OF assms] by (auto simp: run_args_def)

text \<open>
  C4. The simplified endpoint hands the cleaned text to the pipeline
  (\<open>simple_shape_text_sanitized\<close>), the full endpoint hands on the text of the request as
  it is (\<open>full_shape_text_passed_on\<close>). On a request within the field constraints whose
  text has a control character, outer blanks and a CR LF, the pipeline of the concrete
  deployment receives the text uncleaned and returns it as the message; the same text
  through the simplified endpoint arrives cleaned.
\<close>

theorem full_shape_text_unsanitized:
  "TTSInferenceRequest_valid dirty_request \<and>
   req_text dirty_request = lit '' Bon'' @ [7] @ lit ''jour'' @ [13, 10] \<and>
   clean_text (req_text dirty_request) = lit ''Bonjour'' \<and>
   tts_inference_validate demo_env demo_fs dirty_request = Inr dirty_request \<and>
   a_tts_text (run_args demo_env dirty_request) = lit '' Bon'' @ [7] @ lit ''jour'' @ [13, 10] \<and>
   fst (tts_inference demo_env demo_fs dirty_request) =
     Inr (plain_response\<lparr>r_message := lit '' Bon'' @ [7] @ lit ''jour'' @ [13, 10],
                          r_text := lit '' Bon'' @ [7] @ lit ''jour'' @ [13, 10]\<rparr>) \<and>
   s_text demo_simple = req_text dirty_request \<and>
   fst (tts_generate_simple demo_env demo_fs demo_simple) =
     Inr (base64_response\<lparr>r_format := Some (lit ''OGG'')\<rparr>) \<and>
   r_message base64_response = lit ''Bonjour''"
  by (simp add: dirty_request_def demo_simple_def tts_generate_simple_def full_request_def
      valid_formats_def TTSInferenceRequest_valid_def all_eval)
section \<open>The language filter\<close>

text \<open>
  C9. \<open>list_voices\<close> tests the filter against the \<open>ShortName\<close> of a voice, which holds the
  name of the voice after the locale. With the filter \<open>en\<close> the French voice Henri is
  listed, although neither its locale \<open>fr-FR\<close> nor its language \<open>fr\<close> contains \<open>en\<close>.
\<close>

theorem language_filter_matches_name:
  "list_voices demo_env (Some (lit ''en'')) =
     \<lparr>vl_success = True,
      vl_voices =
        [\<lparr>vi_short_name = lit ''fr-FR-HenriNeural'',
          vi_name = lit ''Microsoft Henri Online (Natural) - French (France)'',
          vi_locale = lit ''fr-FR'',
          vi_gender = lit ''Male'',
          vi_language = lit ''fr''\<rparr>],
      vl_total = 1,
      vl_language_filter = Some (lit ''en'')\<rparr> \<and>
   \<not> str_in (str_lower (lit ''en'')) (str_lower (lit ''fr-FR'')) \<and>
   \<not> str_in (str_lower (lit ''en'')) (str_lower (lit ''fr''))"
  by (simp add: list_voices_def filtered_voices_def voice_info_def dict_get_def
      demo_env_def demo_voice_def str_eval)
section \<open>Downloads\<close>

lemma split_on_not_Nil: "split_on sep s \<noteq> []"
  by (induction s) (auto split: list.splits)

lemma split_on_append:
  "split_on sep (a @ sep # b) = split_on sep a @ split_on sep b"
proof (induction a)
  case Nil
  show ?case by simp
next
  case (Cons c a)
  obtain p ps where "split_on sep a = p # ps"
    using split_on_not_Nil [of sep a] by (cases "split_on sep a") auto
  with Cons show ?case by simp
qed



lemma path_tail_Nil [simp]: "path_tail [] = []"
  by (simp add: path_tail_def)

lemma path_tail_append: "path_tail (a @ 47 # b) = path_tail a @ path_tail b"
  by (simp add: path_tail_def split_on_append)

lemma path_tail_slash [simp]: "path_tail [47] = []"
  using path_tail_append [of "[]" "[]"] by simp










end
